theory Spec2Isabelle
  imports Main
begin

section \<open>The music subscription of cat-raoke (TypeScript, under src/music)\<close>

text \<open>
  The module keeps one \<open>MusicSubscription\<close> per guild: a voice connection, an audio
  player, a FIFO queue of tracks and two boolean locks. The voice connection, the audio
  player, the text channel and the interaction are collaborators of the discord.js
  libraries. Each of them is modelled by the fields this module reads from it and by a log
  of the calls this module makes on it, in the order in which they are made.

  The handlers are \<open>async\<close> functions. JavaScript runs such a function without
  interruption up to an \<open>await\<close>, suspends it there, and resumes it later with the
  outcome of the awaited promise; other handlers may run in between. Each handler is
  therefore modelled by the function that runs it up to its \<open>await\<close> and by the
  function that resumes it with the outcome. The outcomes come from the environment, one
  for each promise: nothing fixes the outcome of a later promise by that of an earlier
  one, also not for the same track.
\<close>

subsection \<open>Data\<close>

type_synonym Snowflake = string

text \<open>
  Modelled from the spec: the \<open>Track\<close> class (\<open>./track.js\<close>) is not among the sources.
  The spec gives it a display title and a handle from which the audio resource is
  materialised; its \<open>createAudioResource\<close> method is a parameter of the functions that
  need its result.
\<close>

record Track =
  title :: string
  handle :: string

text \<open>An audio resource carries the track it was made from as its metadata.\<close>

datatype AudioResource = AudioResource (metadata: Track)

text \<open>
  A value caught by \<open>catch (error)\<close> in \<open>processQueue\<close>: the \<open>TypeError\<close> of a method
  call on \<open>undefined\<close>, the rejection of \<open>createAudioResource\<close> with its message, or
  the error thrown by \<open>audioPlayer.play\<close> with its message. The message of the
  \<open>TypeError\<close> is the engine's; a fixed text stands for it.
\<close>

datatype error = TypeError_undefined | ResourceError string | PlayerError string

fun message :: "error \<Rightarrow> string" where
  "message TypeError_undefined = ''Cannot read properties of undefined''"
| "message (ResourceError m) = m"
| "message (PlayerError m) = m"

datatype AudioPlayerStatus = Idle | Buffering | Paused | Playing | AutoPaused

datatype VoiceConnectionStatus = Signalling | Connecting | Ready | Disconnected | Destroyed

datatype VoiceConnectionDisconnectReason =
  WebSocketClose | AdapterUnavailable | EndpointRemoved | Manual

text \<open>
  A voice connection state as the handler reads it: \<open>newState.status\<close>,
  \<open>newState.reason\<close> and \<open>newState.closeCode\<close>; the last two are \<open>undefined\<close>
  (\<open>None\<close>) where the state does not have them.
\<close>

record VoiceConnectionState =
  status :: VoiceConnectionStatus
  reason :: "VoiceConnectionDisconnectReason option"
  closeCode :: "int option"

record VoiceConnection =
  state :: VoiceConnectionState
  rejoinAttempts :: nat

text \<open>The calls made on collaborators, with the arguments the source passes.\<close>

datatype effect =
    Warn string                              \<comment> \<open>\<open>console.warn(error)\<close>\<close>
  | Send string                              \<comment> \<open>\<open>channel.send(text)\<close> on the text channel\<close>
  | Play AudioResource                       \<comment> \<open>\<open>audioPlayer.play(resource)\<close>, when it returns\<close>
  | PlayerStop bool                          \<comment> \<open>\<open>audioPlayer.stop(force)\<close>\<close>
  | Destroy                                  \<comment> \<open>\<open>voiceConnection.destroy()\<close>\<close>
  | Rejoin                                   \<comment> \<open>\<open>voiceConnection.rejoin()\<close>\<close>
  | Wait nat                                 \<comment> \<open>\<open>wait(ms)\<close>\<close>
  | EntersState VoiceConnectionStatus nat    \<comment> \<open>\<open>entersState(voiceConnection, status, ms)\<close>\<close>

record MusicSubscription =
  textChannelId :: Snowflake
  voiceChannelId :: Snowflake
  voiceConnection :: VoiceConnection
  audioPlayer :: AudioPlayerStatus           \<comment> \<open>\<open>audioPlayer.state.status\<close>\<close>
  queue :: "Track list"
  queueLock :: bool
  readyLock :: bool
  effects :: "effect list"
  notifying :: "error list"                  \<comment> \<open>\<open>onError\<close> calls suspended at their \<open>await\<close>, oldest first\<close>

definition emit :: "effect \<Rightarrow> MusicSubscription \<Rightarrow> MusicSubscription" where
  "emit e s = s\<lparr>effects := effects s @ [e]\<rparr>"

subsection \<open>Collaborator calls\<close>

text \<open>
  \<open>audioPlayer.play(resource)\<close>, when it returns, has started playback, so the player
  is no longer idle (a call that throws is a branch of \<open>processQueue\<close> below);
  \<open>audioPlayer.stop(true)\<close> forces the player to \<open>Idle\<close>; \<open>voiceConnection.destroy()\<close>
  puts the connection into \<open>Destroyed\<close>. The state-change events that the libraries
  raise for these transitions are delivered by the environment, as calls of the handlers
  below.
\<close>

definition play :: "AudioResource \<Rightarrow> MusicSubscription \<Rightarrow> MusicSubscription" where
  "play resource s = emit (Play resource) (s\<lparr>audioPlayer := Playing\<rparr>)"

definition player_stop :: "bool \<Rightarrow> MusicSubscription \<Rightarrow> MusicSubscription" where
  "player_stop force s =
     emit (PlayerStop force) (if force then s\<lparr>audioPlayer := Idle\<rparr> else s)"

definition destroy :: "MusicSubscription \<Rightarrow> MusicSubscription" where
  "destroy s =
     emit Destroy
       (s\<lparr>voiceConnection := (voiceConnection s)
            \<lparr>state := \<lparr>status = Destroyed, reason = None, closeCode = None\<rparr>\<rparr>\<rparr>)"

definition rejoin :: "MusicSubscription \<Rightarrow> MusicSubscription" where
  "rejoin s = emit Rejoin s"

subsection \<open>The constructor\<close>

text \<open>
  \<open>new MusicSubscription(voiceConnection, options)\<close>: the queue is empty, both locks
  are clear and the player made by \<open>createAudioPlayer()\<close> is idle.
\<close>

definition new_MusicSubscription ::
  "VoiceConnection \<Rightarrow> Snowflake \<Rightarrow> Snowflake \<Rightarrow> MusicSubscription" where
  "new_MusicSubscription conn voiceChannel textChannel =
     \<lparr>textChannelId = textChannel, voiceChannelId = voiceChannel,
      voiceConnection = conn, audioPlayer = Idle, queue = [],
      queueLock = False, readyLock = False, effects = [], notifying = []\<rparr>"

subsection \<open>The queue\<close>

text \<open>How an awaited promise ends.\<close>

datatype outcome = Resolved | Rejected

text \<open>
  \<open>Array.prototype.shift\<close>: removes and returns the first element, and returns
  \<open>undefined\<close> (\<open>None\<close>) on an empty array, which it leaves empty.
\<close>

fun shift :: "'a list \<Rightarrow> 'a option \<times> 'a list" where
  "shift [] = (None, [])"
| "shift (x # xs) = (Some x, xs)"

text \<open>
  \<open>onError(error)\<close> is \<open>async\<close> and its callers do not await it. Up to its \<open>await\<close>
  it logs the error on the console and asks for the text channel
  (\<open>await this.textChannel\<close>, a fetch by \<open>guildChannels\<close>); the call then stays
  suspended, behind the calls suspended before it.
\<close>

definition onError :: "error \<Rightarrow> MusicSubscription \<Rightarrow> MusicSubscription" where
  "onError err s = (emit (Warn (message err)) s)\<lparr>notifying := notifying s @ [err]\<rparr>"

text \<open>The text that \<open>onError\<close> sends for an error.\<close>

definition notification :: "error \<Rightarrow> string" where
  "notification err = ''Erreur: `'' @ message err @ ''`''"

text \<open>
  The suspended \<open>onError\<close> call number \<open>i\<close> (from the oldest, \<open>0\<close>) resumed with the
  outcome of its fetch of the text channel: when the fetch has resolved the call sends
  its notification; when it has rejected the call ends with nothing sent. Nothing
  happens when no call has that number.
\<close>

definition onError_resume :: "nat \<Rightarrow> outcome \<Rightarrow> MusicSubscription \<Rightarrow> MusicSubscription" where
  "onError_resume i fetched s =
     (if i < length (notifying s) then
        let err = notifying s ! i;
            s' = s\<lparr>notifying := take i (notifying s) @ drop (Suc i) (notifying s)\<rparr>
        in (case fetched of
              Resolved \<Rightarrow> emit (Send (notification err)) s'
            | Rejected \<Rightarrow> s')
      else s)"

text \<open>
  \<open>stop()\<close>: sets the queue lock, empties the queue and force-stops the player.
\<close>

definition stop :: "MusicSubscription \<Rightarrow> MusicSubscription" where
  "stop s = player_stop True (s\<lparr>queueLock := True, queue := []\<rparr>)"

text \<open>
  \<open>processQueue()\<close> up to its \<open>await\<close>. The result \<open>(s, None)\<close> is a return in state
  \<open>s\<close>; \<open>(s, Some t)\<close> is a suspension in state \<open>s\<close> at
  \<open>await nextTrack.createAudioResource()\<close> with \<open>nextTrack = t\<close>. When \<open>shift\<close> returns
  \<open>undefined\<close>, the method call throws a \<open>TypeError\<close> inside the \<open>try\<close> block before
  anything is awaited, and the \<open>catch\<close> block runs at once: it reports the error, clears
  the lock and calls \<open>processQueue\<close> again. The function is partial: \<open>None\<close> is a call
  that does not return.
\<close>

partial_function (option) processQueue ::
  "MusicSubscription \<Rightarrow> (MusicSubscription \<times> Track option) option" where
  "processQueue s =
     (if queueLock s \<or> audioPlayer s \<noteq> Idle then Some (s, None)
      else
        let s1 = s\<lparr>queueLock := True\<rparr> in
        case shift (queue s1) of
          (None, rest) \<Rightarrow>
            processQueue ((onError TypeError_undefined (s1\<lparr>queue := rest\<rparr>))\<lparr>queueLock := False\<rparr>)
        | (Some nextTrack, rest) \<Rightarrow> Some (s1\<lparr>queue := rest\<rparr>, Some nextTrack))"

text \<open>
  What happens to one track after the \<open>await\<close> of \<open>processQueue\<close>: the promise of
  \<open>createAudioResource\<close> rejects with an error; or it resolves with a resource and
  \<open>audioPlayer.play(resource)\<close> returns; or it resolves with a resource and
  \<open>audioPlayer.play(resource)\<close> throws an error.
\<close>

datatype attempt =
    Rejects error
  | Accepted AudioResource
  | Refused AudioResource error

text \<open>
  \<open>processQueue()\<close> resumed after its \<open>await\<close>. The \<open>try\<close> block holds the
  \<open>await\<close>, the call of \<open>play\<close> and the release of the lock: when \<open>play\<close> has
  returned the lock is cleared; an error of the promise or of \<open>play\<close> goes to the
  \<open>catch\<close> block, which reports it, clears the lock and calls \<open>processQueue\<close> again.
\<close>

definition processQueue_resume ::
  "attempt \<Rightarrow> MusicSubscription \<Rightarrow> (MusicSubscription \<times> Track option) option" where
  "processQueue_resume a s =
     (case a of
        Accepted resource \<Rightarrow> Some ((play resource s)\<lparr>queueLock := False\<rparr>, None)
      | Rejects err \<Rightarrow> processQueue ((onError err s)\<lparr>queueLock := False\<rparr>)
      | Refused resource err \<Rightarrow> processQueue ((onError err s)\<lparr>queueLock := False\<rparr>))"

text \<open>
  The promises of a subscription settle in an order that the environment chooses:
  \<open>Settled a\<close> settles the promise that \<open>processQueue\<close> awaits, with the attempt \<open>a\<close>;
  \<open>Fetched i r\<close> settles the fetch of the suspended \<open>onError\<close> call number \<open>i\<close> with
  the outcome \<open>r\<close>. A configuration is the subscription with the track that
  \<open>processQueue\<close> awaits, if any; with no track awaited, \<open>Settled\<close> finds nothing to
  resume.
\<close>

datatype event = Settled attempt | Fetched nat outcome

fun deliver ::
  "event \<Rightarrow> MusicSubscription \<times> Track option \<Rightarrow> (MusicSubscription \<times> Track option) option" where
  "deliver (Settled a) (s, Some t) = processQueue_resume a s"
| "deliver (Settled a) (s, None) = Some (s, None)"
| "deliver (Fetched i r) (s, p) = Some (onError_resume i r s, p)"

fun deliver_all ::
  "event list \<Rightarrow> MusicSubscription \<times> Track option
     \<Rightarrow> (MusicSubscription \<times> Track option) option" where
  "deliver_all [] c = Some c"
| "deliver_all (ev # evs) c = Option.bind (deliver ev c) (deliver_all evs)"

text \<open>
  A run of \<open>processQueue\<close>: the call, and then the events \<open>evs\<close> in their order, with
  no other call on the subscription in between.
\<close>

definition processQueue_run ::
  "event list \<Rightarrow> MusicSubscription \<Rightarrow> (MusicSubscription \<times> Track option) option" where
  "processQueue_run evs s = Option.bind (processQueue s) (deliver_all evs)"



fun attempts :: "event list \<Rightarrow> attempt list" where
  "attempts [] = []"
| "attempts (Settled a # evs) = a # attempts evs"
| "attempts (Fetched i r # evs) = attempts evs"

fun fails :: "attempt \<Rightarrow> bool" where
  "fails (Rejects err) = True"
| "fails (Accepted resource) = False"
| "fails (Refused resource err) = True"


text \<open>\<open>enqueue(track)\<close>: appends the track and calls \<open>processQueue\<close>.\<close>

definition enqueue ::
  "Track \<Rightarrow> MusicSubscription \<Rightarrow> (MusicSubscription \<times> Track option) option" where
  "enqueue track s = processQueue (s\<lparr>queue := queue s @ [track]\<rparr>)"

subsection \<open>The voice connection's state-change handler\<close>

text \<open>
  The handler awaits one of three promises, depending on the branch it takes:
  \<open>entersState(voiceConnection, Connecting, 5_000)\<close>, \<open>wait(...)\<close>, or
  \<open>entersState(voiceConnection, Ready, 20_000)\<close>. A promise of \<open>entersState\<close> resolves
  when the connection reaches the status in time and rejects otherwise; the promise of
  \<open>wait\<close> always resolves.
\<close>

datatype pending = AwaitConnecting | AwaitBackoff | AwaitReady

text \<open>
  The handler up to its \<open>await\<close>. The second component is the promise it is suspended
  at, or \<open>None\<close> when it has returned.
\<close>

definition stateChange ::
  "VoiceConnectionState \<Rightarrow> MusicSubscription \<Rightarrow> MusicSubscription \<times> pending option" where
  "stateChange newState s =
     (if status newState = Disconnected then
        if reason newState = Some WebSocketClose \<and> closeCode newState = Some 4014 then
          (emit (EntersState Connecting 5000) s, Some AwaitConnecting)
        else if rejoinAttempts (voiceConnection s) < 5 then
          (emit (Wait ((rejoinAttempts (voiceConnection s) + 1) * 5000)) s, Some AwaitBackoff)
        else
          (destroy s, None)
      else if status newState = Destroyed then
        (stop s, None)
      else if \<not> readyLock s \<and>
              (status newState = Connecting \<or> status newState = Signalling) then
        (emit (EntersState Ready 20000) (s\<lparr>readyLock := True\<rparr>), Some AwaitReady)
      else
        (s, None))"

text \<open>
  The handler resumed with the outcome of the awaited promise, in the state the
  subscription has by then: the \<open>catch\<close> blocks run on a rejection, the statement after
  \<open>await wait(...)\<close> runs in any case, and the \<open>finally\<close> block runs last on both
  outcomes.
\<close>

fun stateChange_resume :: "pending \<Rightarrow> outcome \<Rightarrow> MusicSubscription \<Rightarrow> MusicSubscription" where
  "stateChange_resume AwaitConnecting Resolved s = s"
| "stateChange_resume AwaitConnecting Rejected s = destroy s"
| "stateChange_resume AwaitBackoff _ s = rejoin s"
| "stateChange_resume AwaitReady Resolved s = s\<lparr>readyLock := False\<rparr>"
| "stateChange_resume AwaitReady Rejected s =
     (if status (state (voiceConnection s)) \<noteq> Destroyed then destroy s else s)
       \<lparr>readyLock := False\<rparr>"

text \<open>
  The handler run from the event to its end with no other handler in between: a
  suspension is resumed with \<open>result\<close> in the state the handler left.
\<close>

definition stateChange_run ::
  "VoiceConnectionState \<Rightarrow> outcome \<Rightarrow> MusicSubscription \<Rightarrow> MusicSubscription" where
  "stateChange_run newState result s =
     (case stateChange newState s of
        (s', None) \<Rightarrow> s'
      | (s', Some p) \<Rightarrow> stateChange_resume p result s')"

subsection \<open>The session registry and the bootstrap\<close>

text \<open>
  \<open>subscriptions\<close> is a module-level \<open>Map\<close> from guild id to subscription object. The
  objects live in a heap, a list indexed by their references, so that the registry and a
  handler's \<open>this\<close> name the same object.
\<close>

type_synonym ref = nat

record World =
  subscriptions :: "Snowflake \<rightharpoonup> ref"
  heap :: "MusicSubscription list"

definition alloc :: "MusicSubscription \<Rightarrow> World \<Rightarrow> ref \<times> World" where
  "alloc s w = (length (heap w), w\<lparr>heap := heap w @ [s]\<rparr>)"

text \<open>
  The state-change handler of the subscription object \<open>this\<close>, run up to its \<open>await\<close>
  in the world that holds the object.
\<close>

definition on_stateChange ::
  "ref \<Rightarrow> VoiceConnectionState \<Rightarrow> World \<Rightarrow> World \<times> pending option" where
  "on_stateChange this newState w =
     (if this < length (heap w) then
        (case stateChange newState (heap w ! this) of
           (s', p) \<Rightarrow> (w\<lparr>heap := (heap w)[this := s']\<rparr>, p))
      else (w, None))"

text \<open>
  The part of the interaction that the bootstrap reads: the guild and the channel of the
  command, the voice channel of the member (\<open>None\<close> when the member is not a
  \<open>GuildMember\<close> or is in no voice channel), and the names of the guild's channels.
\<close>

record VoiceChannel =
  vc_id :: Snowflake
  vc_guildId :: Snowflake

record Interaction =
  guildId :: Snowflake
  channelId :: Snowflake
  member_voice_channel :: "VoiceChannel option"
  channel_name :: "Snowflake \<Rightarrow> string"

text \<open>
  The three messages of \<open>interaction.followUp\<close>: the request to join a voice channel
  first, the failure to join within 20 seconds, and the name of the joined channel.
\<close>

datatype reply = NoVoiceChannel | JoinTimeout | Joined string

text \<open>
  \<open>joinVCAndCreateSubscription(subscription, interaction)\<close>. \<open>joinVoiceChannel\<close> is the
  library function that opens the connection; \<open>entered\<close> is the outcome of
  \<open>entersState(subscription.voiceConnection, Ready, 20e3)\<close>. The result is the returned
  subscription (\<open>None\<close> for \<open>void\<close>), the messages sent to the caller and the world.
\<close>

definition joinVCAndCreateSubscription ::
  "(Snowflake \<Rightarrow> Snowflake \<Rightarrow> VoiceConnection) \<Rightarrow> ref option \<Rightarrow> Interaction \<Rightarrow> outcome
     \<Rightarrow> World \<Rightarrow> ref option \<times> reply list \<times> World" where
  "joinVCAndCreateSubscription joinVoiceChannel subscription interaction entered w =
     (if subscription = None then
        (case (case member_voice_channel interaction of
                 Some voiceChannel \<Rightarrow>
                   (case alloc (new_MusicSubscription
                                  (joinVoiceChannel (vc_id voiceChannel) (vc_guildId voiceChannel))
                                  (vc_id voiceChannel) (channelId interaction)) w of
                      (this, w') \<Rightarrow>
                        (Some this,
                         w'\<lparr>subscriptions := (subscriptions w')(guildId interaction \<mapsto> this)\<rparr>))
               | None \<Rightarrow> (None, w)) of
           (None, w1) \<Rightarrow> (None, [NoVoiceChannel], w1)
         | (Some this, w1) \<Rightarrow>
             let w2 = w1\<lparr>heap := (heap w1)[this := emit (EntersState Ready 20000) (heap w1 ! this)]\<rparr>
             in (case entered of
                   Rejected \<Rightarrow> (None, [JoinTimeout], w2)
                 | Resolved \<Rightarrow>
                     (Some this,
                      [Joined (channel_name interaction (voiceChannelId (heap w2 ! this)))], w2)))
      else (subscription, [], w))"

section \<open>Properties\<close>

subsection \<open>Auxiliary facts\<close>

lemma effects_emit: "effects (emit e s) = effects s @ [e]"
  by (simp add: emit_def)

lemma effects_destroy: "effects (destroy s) = effects s @ [Destroy]"
  by (simp add: destroy_def emit_def)

lemma status_destroy: "status (state (voiceConnection (destroy s))) = Destroyed"
  by (simp add: destroy_def emit_def)

lemma onError_fields [simp]:
  "queue (onError e s) = queue s"
  "audioPlayer (onError e s) = audioPlayer s"
  "queueLock (onError e s) = queueLock s"
  "effects (onError e s) = effects s @ [Warn (message e)]"
  "notifying (onError e s) = notifying s @ [e]"
  by (simp_all add: onError_def emit_def)

lemma onError_resume_fields [simp]:
  "queue (onError_resume i r s) = queue s"
  "audioPlayer (onError_resume i r s) = audioPlayer s"
  "queueLock (onError_resume i r s) = queueLock s"
  by (simp_all add: onError_resume_def emit_def Let_def split: outcome.splits)




lemma stop_fields:
  "queue (stop s) = []"
  "queueLock (stop s)"
  "audioPlayer (stop s) = Idle"
  "effects (stop s) = effects s @ [PlayerStop True]"
  by (simp_all add: stop_def player_stop_def emit_def)

text \<open>
  The bootstrap on a member in a voice channel, with no subscription given: the new
  subscription is registered under the guild of the interaction, whatever the wait for
  \<open>Ready\<close> gives.
\<close>

lemma bootstrap_registers:
  assumes "member_voice_channel interaction = Some voiceChannel"
  shows "snd (snd (joinVCAndCreateSubscription joinVoiceChannel None interaction entered w)) =
           \<lparr>subscriptions = (subscriptions w)(guildId interaction \<mapsto> length (heap w)),
            heap = heap w @
              [emit (EntersState Ready 20000)
                 (new_MusicSubscription
                    (joinVoiceChannel (vc_id voiceChannel) (vc_guildId voiceChannel))
                    (vc_id voiceChannel) (channelId interaction))]\<rparr>"
  using assms by (cases entered) (simp_all add: joinVCAndCreateSubscription_def alloc_def)

text \<open>The three ways through \<open>processQueue\<close> up to its \<open>await\<close>.\<close>

lemma processQueue_returns:
  "queueLock s \<or> audioPlayer s \<noteq> Idle \<Longrightarrow> processQueue s = Some (s, None)"
  by (subst processQueue.simps) simp

lemma processQueue_head:
  "\<not> queueLock s \<Longrightarrow> audioPlayer s = Idle \<Longrightarrow> queue s = t # rest \<Longrightarrow>
   processQueue s = Some (s\<lparr>queueLock := True, queue := rest\<rparr>, Some t)"
  by (subst processQueue.simps) simp

lemma processQueue_empty_recurses:
  "\<not> queueLock s \<Longrightarrow> audioPlayer s = Idle \<Longrightarrow> queue s = [] \<Longrightarrow>
   processQueue s =
     processQueue ((onError TypeError_undefined (s\<lparr>queueLock := True, queue := []\<rparr>))
                     \<lparr>queueLock := False\<rparr>)"
  by (subst processQueue.simps) simp

text \<open>
  A call that returns or suspends did so at the guard or with a head element: by
  induction on the computation, the recursion on an empty queue never produces a result.
\<close>

lemma processQueue_Some_D:
  "processQueue s = Some r \<Longrightarrow> queueLock s \<or> audioPlayer s \<noteq> Idle \<or> queue s \<noteq> []"
proof (induction rule: processQueue.raw_induct[rotated 1, consumes 1])
  case (1 processQueue s r)
  show ?case
  proof (cases "queueLock s \<or> audioPlayer s \<noteq> Idle \<or> queue s \<noteq> []")
    case True
    then show ?thesis by blast
  next
    case False
    with 1(2) have
      "processQueue ((onError TypeError_undefined (s\<lparr>queueLock := True, queue := []\<rparr>))
                       \<lparr>queueLock := False\<rparr>) = Some r"
      by simp
    from 1(1)[OF this] show ?thesis by simp
  qed
qed

lemma processQueue_diverges:
  "\<not> queueLock s \<Longrightarrow> audioPlayer s = Idle \<Longrightarrow> queue s = [] \<Longrightarrow> processQueue s = None"
  using processQueue_Some_D[of s] by (cases "processQueue s") auto

text \<open>
  With no suspended \<open>processQueue\<close>, a call after \<open>stop()\<close> returns at the guard and
  changes nothing.
\<close>

lemma processQueue_after_stop: "processQueue (stop s) = Some (stop s, None)"
  by (rule processQueue_returns) (simp add: stop_fields)



text \<open>
  When every attempt fails and there are more attempts than queued tracks, the run
  reaches the empty queue and does not return, however the fetches settle.
\<close>

lemma deliver_all_failures_never_return:
  assumes "audioPlayer s = Idle" and "list_all fails (attempts evs)"
    and "length (queue s) < length (attempts evs)"
  shows "deliver_all evs (s, Some x) = None"
  using assms
proof (induction evs arbitrary: s x)
  case Nil
  then show ?case by simp
next
  case (Cons ev evs)
  show ?case
  proof (cases ev)
    case (Fetched i r)
    with Cons.prems Cons.IH [of "onError_resume i r s" x] show ?thesis by simp
  next
    case (Settled a)
    with Cons.prems obtain e where
      resume: "processQueue_resume a s = processQueue ((onError e s)\<lparr>queueLock := False\<rparr>)"
      by (cases a) (auto simp: processQueue_resume_def)
    show ?thesis
    proof (cases "queue s")
      case Nil
      with Cons.prems(1) have "processQueue ((onError e s)\<lparr>queueLock := False\<rparr>) = None"
        by (simp add: processQueue_diverges)
      with Settled resume show ?thesis by simp
    next
      case q: (Cons y q)
      let ?s2 = "(onError e s)\<lparr>queueLock := False\<rparr>\<lparr>queueLock := True, queue := q\<rparr>"
      have "processQueue ((onError e s)\<lparr>queueLock := False\<rparr>) = Some (?s2, Some y)"
        using Cons.prems(1) q by (simp add: processQueue_head)
      moreover have "deliver_all evs (?s2, Some y) = None"
        using Cons.prems Settled q by (intro Cons.IH) simp_all
      ultimately show ?thesis using Settled resume by simp
    qed
  qed
qed

lemma run_all_failing_never_returns:
  assumes "\<not> queueLock s" and "audioPlayer s = Idle"
    and "list_all fails (attempts evs)" and "length (queue s) \<le> length (attempts evs)"
  shows "processQueue_run evs s = None"
proof (cases "queue s")
  case Nil
  with assms show ?thesis by (simp add: processQueue_run_def processQueue_diverges)
next
  case (Cons t rest)
  let ?s1 = "s\<lparr>queueLock := True, queue := rest\<rparr>"
  have "processQueue s = Some (?s1, Some t)"
    using assms Cons by (simp add: processQueue_head)
  moreover have "deliver_all evs (?s1, Some t) = None"
    using assms Cons by (intro deliver_all_failures_never_return) simp_all
  ultimately show ?thesis by (simp add: processQueue_run_def)
qed

subsection \<open>The queue\<close>

text \<open>
  Claim C1 says that every call of \<open>processQueue\<close> terminates, and that an invocation
  that reaches an empty queue returns rather than recursing again. The guard of
  \<open>processQueue\<close> tests the lock and the player only. On a new subscription (lock
  clear, player idle, queue empty) the call does not return; and when the only queued
  track fails to materialise, the run reports the failure, reaches the empty queue and
  does not return either.
\<close>

theorem processQueue_exhausted_queue_never_returns:
  "processQueue (new_MusicSubscription conn ''voice'' ''text'') = None \<and>
   processQueue_run [Settled (Rejects (ResourceError ''unavailable''))]
     ((new_MusicSubscription conn ''voice'' ''text'')
        \<lparr>queue := [\<lparr>title = ''A'', handle = ''a''\<rparr>]\<rparr>) = None"
proof -
  let ?s0 = "new_MusicSubscription conn ''voice'' ''text''"
  let ?A = "\<lparr>title = ''A'', handle = ''a''\<rparr>"
  let ?s1 = "?s0\<lparr>queue := [?A]\<rparr>\<lparr>queueLock := True, queue := []\<rparr>"
  have empty: "processQueue ?s0 = None"
    by (rule processQueue_diverges) (simp_all add: new_MusicSubscription_def)
  have "processQueue (?s0\<lparr>queue := [?A]\<rparr>) = Some (?s1, Some ?A)"
    by (rule processQueue_head) (simp_all add: new_MusicSubscription_def)
  moreover have
    "processQueue ((onError (ResourceError ''unavailable'') ?s1)\<lparr>queueLock := False\<rparr>) = None"
    by (rule processQueue_diverges) (simp_all add: new_MusicSubscription_def)
  ultimately have
    "processQueue_run [Settled (Rejects (ResourceError ''unavailable''))]
       (?s0\<lparr>queue := [?A]\<rparr>) = None"
    by (simp add: processQueue_run_def processQueue_resume_def)
  with empty show ?thesis by simp
qed

text \<open>
  Claim C2 says that after \<open>stop()\<close> every later \<open>processQueue\<close> call is a no-op that
  starts no playback, because the lock set by \<open>stop()\<close> is never released. A
  \<open>processQueue\<close> suspended at its \<open>await\<close> when \<open>stop()\<close> runs clears the lock when
  it resumes. Here \<open>enqueue(A)\<close> suspends on a new subscription, \<open>stop()\<close> runs,
  \<open>enqueue(B)\<close> returns at the guard, the resource of \<open>A\<close> is rejected, the
  \<open>processQueue\<close> call of the \<open>catch\<close> block passes the guard and takes \<open>B\<close>, and
  the resource of \<open>B\<close> is played: the lock is clear and the player is playing, after
  the forced stop. (The notification of the reported error is not in the log: its
  \<open>onError\<close> call is still suspended.)
\<close>

theorem stop_lock_released_by_suspended_processQueue:
  "Option.bind (enqueue \<lparr>title = ''A'', handle = ''a''\<rparr>
                  (new_MusicSubscription conn ''voice'' ''text''))
     (\<lambda>(s1, p1). Option.bind (enqueue \<lparr>title = ''B'', handle = ''b''\<rparr> (stop s1))
     (\<lambda>(s2, p2). Option.bind (processQueue_resume (Rejects (ResourceError ''unavailable'')) s2)
     (\<lambda>(s3, p3). Option.bind
                    (processQueue_resume
                       (Accepted (AudioResource \<lparr>title = ''B'', handle = ''b''\<rparr>)) s3)
     (\<lambda>(s4, p4). Some (p1, p2, p3, p4, queueLock s4, audioPlayer s4, effects s4)))))
   = Some (Some \<lparr>title = ''A'', handle = ''a''\<rparr>, None,
           Some \<lparr>title = ''B'', handle = ''b''\<rparr>, None,
           False, Playing,
           [PlayerStop True, Warn ''unavailable'',
            Play (AudioResource \<lparr>title = ''B'', handle = ''b''\<rparr>)])"
proof -
  let ?s0 = "new_MusicSubscription conn ''voice'' ''text''"
  let ?A = "\<lparr>title = ''A'', handle = ''a''\<rparr>"
  let ?B = "\<lparr>title = ''B'', handle = ''b''\<rparr>"
  let ?s1 = "?s0\<lparr>queueLock := True\<rparr>"
  let ?s2 = "(stop ?s1)\<lparr>queue := [?B]\<rparr>"
  let ?s2' = "(onError (ResourceError ''unavailable'') ?s2)\<lparr>queueLock := False\<rparr>"
  let ?s3 = "?s2'\<lparr>queueLock := True, queue := []\<rparr>"
  have "processQueue (?s0\<lparr>queue := queue ?s0 @ [?A]\<rparr>) =
          Some (?s0\<lparr>queue := queue ?s0 @ [?A]\<rparr>\<lparr>queueLock := True, queue := []\<rparr>, Some ?A)"
    by (rule processQueue_head) (simp_all add: new_MusicSubscription_def)
  then have e1: "enqueue ?A ?s0 = Some (?s1, Some ?A)"
    by (simp add: enqueue_def new_MusicSubscription_def)
  have "processQueue ((stop ?s1)\<lparr>queue := queue (stop ?s1) @ [?B]\<rparr>) =
          Some ((stop ?s1)\<lparr>queue := queue (stop ?s1) @ [?B]\<rparr>, None)"
    by (rule processQueue_returns) (simp add: stop_fields)
  then have e2: "enqueue ?B (stop ?s1) = Some (?s2, None)"
    by (simp add: enqueue_def stop_fields)
  have "processQueue ?s2' = Some (?s3, Some ?B)"
    by (rule processQueue_head) (simp_all add: stop_fields new_MusicSubscription_def)
  then have e3:
    "processQueue_resume (Rejects (ResourceError ''unavailable'')) ?s2 = Some (?s3, Some ?B)"
    by (simp add: processQueue_resume_def)
  show ?thesis
    apply (simp only: e1 e2 e3 Option.bind.simps prod.case)
    apply (simp add: processQueue_resume_def play_def emit_def onError_def stop_fields
          new_MusicSubscription_def)
    done
qed

text \<open>
  Claim C3 says that past the guard the queue is never empty where the head is removed,
  so that \<open>nextTrack\<close> is a track in every call, also in one made on an empty queue.
  After \<open>enqueue(A)\<close> on a new subscription has suspended and the resource of \<open>A\<close> is
  rejected, the \<open>catch\<close> block calls \<open>processQueue\<close> in a state that passes the guard
  with an empty queue: \<open>shift\<close> returns \<open>undefined\<close>.
\<close>

theorem processQueue_shift_on_empty_queue:
  "enqueue \<lparr>title = ''A'', handle = ''a''\<rparr> (new_MusicSubscription conn ''voice'' ''text'') =
     Some ((new_MusicSubscription conn ''voice'' ''text'')\<lparr>queueLock := True\<rparr>,
           Some \<lparr>title = ''A'', handle = ''a''\<rparr>) \<and>
   (let s = (onError (ResourceError ''unavailable'')
               ((new_MusicSubscription conn ''voice'' ''text'')\<lparr>queueLock := True\<rparr>))
             \<lparr>queueLock := False\<rparr>
    in \<not> (queueLock s \<or> audioPlayer s \<noteq> Idle) \<and>
       shift (queue (s\<lparr>queueLock := True\<rparr>)) = (None, []))"
proof -
  let ?s0 = "new_MusicSubscription conn ''voice'' ''text''"
  let ?A = "\<lparr>title = ''A'', handle = ''a''\<rparr>"
  have "processQueue (?s0\<lparr>queue := queue ?s0 @ [?A]\<rparr>) =
          Some (?s0\<lparr>queue := queue ?s0 @ [?A]\<rparr>\<lparr>queueLock := True, queue := []\<rparr>, Some ?A)"
    by (rule processQueue_head) (simp_all add: new_MusicSubscription_def)
  then have "enqueue ?A ?s0 = Some (?s0\<lparr>queueLock := True\<rparr>, Some ?A)"
    by (simp add: enqueue_def new_MusicSubscription_def)
  then show ?thesis
    by (simp add: Let_def new_MusicSubscription_def)
qed

text \<open>
  Claim C4: a call of \<open>processQueue\<close> made while the queue lock is set or the player
  is not idle returns at once, without an error, and leaves the whole subscription (the
  queue, both locks and the player among it) as it was.
\<close>

theorem processQueue_guard_noop:
  "queueLock s \<or> audioPlayer s \<noteq> Idle \<Longrightarrow> processQueue s = Some (s, None)"
  by (subst processQueue.simps) simp

theorem processQueue_guard_noop_witness:
  "(let s = \<lparr>textChannelId = ''text'', voiceChannelId = ''voice'',
             voiceConnection =
               \<lparr>state = \<lparr>status = Ready, reason = None, closeCode = None\<rparr>, rejoinAttempts = 0\<rparr>,
             audioPlayer = Playing, queue = [\<lparr>title = ''A'', handle = ''a''\<rparr>],
             queueLock = False, readyLock = False, effects = [], notifying = []\<rparr>
    in (queueLock s \<or> audioPlayer s \<noteq> Idle) \<and> processQueue s = Some (s, None))"
  using processQueue_guard_noop
    [of "\<lparr>textChannelId = ''text'', voiceChannelId = ''voice'',
          voiceConnection =
            \<lparr>state = \<lparr>status = Ready, reason = None, closeCode = None\<rparr>, rejoinAttempts = 0\<rparr>,
          audioPlayer = Playing, queue = [\<lparr>title = ''A'', handle = ''a''\<rparr>],
          queueLock = False, readyLock = False, effects = [], notifying = []\<rparr>"]
  by (simp add: Let_def)




subsection \<open>The session registry\<close>

text \<open>
  Claim C6 says that the registry entry of a subscription is removed when its voice
  session enters \<open>Destroyed\<close>. The handler calls \<open>stop()\<close> and nothing in the module
  deletes from \<open>subscriptions\<close>: in the world that the bootstrap leaves when it
  has registered the first subscription, for the guild \<open>guild\<close>, the guild still maps
  to the subscription after its connection has been destroyed.
\<close>

theorem destroyed_entry_not_removed:
  "subscriptions
     (fst (on_stateChange 0 \<lparr>status = Destroyed, reason = None, closeCode = None\<rparr>
        \<lparr>subscriptions = [''guild'' \<mapsto> 0],
         heap = [emit (EntersState Ready 20000)
                   (new_MusicSubscription
                      \<lparr>state = \<lparr>status = Signalling, reason = None, closeCode = None\<rparr>,
                       rejoinAttempts = 0\<rparr>
                      ''voice'' ''text'')]\<rparr>))
     ''guild'' = Some 0"
  by (simp add: on_stateChange_def stateChange_def)

text \<open>
  Claim C6 as amended: when the voice session of a registered subscription enters
  \<open>Destroyed\<close>, the handler runs \<open>stop()\<close> on the subscription and returns, and the
  registry entry of its guild still maps to it.
\<close>

theorem destroyed_stops_and_keeps_entry:
  assumes "status newState = Destroyed" and "subscriptions w g = Some this"
    and "this < length (heap w)"
  shows "on_stateChange this newState w =
           (w\<lparr>heap := (heap w)[this := stop (heap w ! this)]\<rparr>, None) \<and>
         subscriptions (fst (on_stateChange this newState w)) g = Some this"
  using assms by (simp add: on_stateChange_def stateChange_def)

theorem destroyed_stops_and_keeps_entry_witness:
  "(let newState = \<lparr>status = Destroyed, reason = None, closeCode = None\<rparr>;
        s = new_MusicSubscription
              \<lparr>state = \<lparr>status = Destroyed, reason = None, closeCode = None\<rparr>, rejoinAttempts = 0\<rparr>
              ''voice'' ''text'';
        w = \<lparr>subscriptions = [''guild'' \<mapsto> 0],
             heap = [s\<lparr>queue := [\<lparr>title = ''A'', handle = ''a''\<rparr>]\<rparr>]\<rparr>
    in status newState = Destroyed \<and> subscriptions w ''guild'' = Some 0 \<and>
       0 < length (heap w) \<and>
       on_stateChange 0 newState w =
         (\<lparr>subscriptions = [''guild'' \<mapsto> 0],
           heap = [s\<lparr>queueLock := True, effects := [PlayerStop True]\<rparr>]\<rparr>, None) \<and>
       subscriptions (fst (on_stateChange 0 newState w)) ''guild'' = Some 0)"
  using destroyed_stops_and_keeps_entry
    [of "\<lparr>status = Destroyed, reason = None, closeCode = None\<rparr>"
      "\<lparr>subscriptions = [''guild'' \<mapsto> 0],
        heap = [(new_MusicSubscription
                   \<lparr>state = \<lparr>status = Destroyed, reason = None, closeCode = None\<rparr>,
                    rejoinAttempts = 0\<rparr>
                   ''voice'' ''text'')\<lparr>queue := [\<lparr>title = ''A'', handle = ''a''\<rparr>]\<rparr>]\<rparr>"
      "''guild''" 0]
  by (simp add: Let_def new_MusicSubscription_def stop_def player_stop_def emit_def)

text \<open>
  Claim C10: when the bootstrap is given no subscription and the member is in a voice
  channel, it creates a subscription and registers it under the guild of the
  interaction; when the connection then fails to become ready within 20 seconds, it
  reports the join timeout, returns no subscription, and leaves the new entry in the
  registry.
\<close>

theorem join_timeout_keeps_registry_entry:
  assumes "member_voice_channel interaction = Some voiceChannel"
  shows "joinVCAndCreateSubscription joinVoiceChannel None interaction Rejected w =
           (None, [JoinTimeout],
            \<lparr>subscriptions = (subscriptions w)(guildId interaction \<mapsto> length (heap w)),
             heap = heap w @
               [emit (EntersState Ready 20000)
                  (new_MusicSubscription
                     (joinVoiceChannel (vc_id voiceChannel) (vc_guildId voiceChannel))
                     (vc_id voiceChannel) (channelId interaction))]\<rparr>)"
  using assms by (simp add: joinVCAndCreateSubscription_def alloc_def)

theorem join_timeout_keeps_registry_entry_witness:
  "(let interaction =
          \<lparr>guildId = ''guild'', channelId = ''text'',
           member_voice_channel = Some \<lparr>vc_id = ''voice'', vc_guildId = ''guild''\<rparr>,
           channel_name = (\<lambda>c. ''General'')\<rparr>;
        conn = \<lparr>state = \<lparr>status = Signalling, reason = None, closeCode = None\<rparr>,
                rejoinAttempts = 0\<rparr>
    in member_voice_channel interaction = Some \<lparr>vc_id = ''voice'', vc_guildId = ''guild''\<rparr> \<and>
       joinVCAndCreateSubscription (\<lambda>channel guild. conn) None interaction Rejected
         \<lparr>subscriptions = Map.empty, heap = []\<rparr> =
       (None, [JoinTimeout],
        \<lparr>subscriptions = [''guild'' \<mapsto> 0],
         heap = [(new_MusicSubscription conn ''voice'' ''text'')
                   \<lparr>effects := [EntersState Ready 20000]\<rparr>]\<rparr>))"
  using join_timeout_keeps_registry_entry
    [of "\<lparr>guildId = ''guild'', channelId = ''text'',
          member_voice_channel = Some \<lparr>vc_id = ''voice'', vc_guildId = ''guild''\<rparr>,
          channel_name = (\<lambda>c. ''General'')\<rparr>"
      "\<lparr>vc_id = ''voice'', vc_guildId = ''guild''\<rparr>"
      "\<lambda>channel guild.
         \<lparr>state = \<lparr>status = Signalling, reason = None, closeCode = None\<rparr>, rejoinAttempts = 0\<rparr>"
      "\<lparr>subscriptions = Map.empty, heap = []\<rparr>"]
  by (simp add: Let_def new_MusicSubscription_def emit_def)

subsection \<open>The voice connection\<close>

text \<open>
  Claim C7: on a \<open>Disconnected\<close> event whose reason is the closing of the web socket
  with close code 4014, the handler waits up to 5 seconds for \<open>Connecting\<close>; when the
  connection gets there in time the handler ends and has done nothing else, and when it
  does not the handler destroys the voice connection.
\<close>

theorem disconnected_4014_waits_for_connecting:
  assumes "status newState = Disconnected" and "reason newState = Some WebSocketClose"
    and "closeCode newState = Some 4014"
  shows "stateChange newState s =
           (emit (EntersState Connecting 5000) s, Some AwaitConnecting) \<and>
         stateChange_resume AwaitConnecting Resolved s' = s' \<and>
         stateChange_resume AwaitConnecting Rejected s' = destroy s' \<and>
         effects (destroy s') = effects s' @ [Destroy] \<and>
         status (state (voiceConnection (destroy s'))) = Destroyed"
  using assms by (simp add: stateChange_def effects_destroy status_destroy)

theorem disconnected_4014_waits_for_connecting_witness:
  "(let newState = \<lparr>status = Disconnected, reason = Some WebSocketClose, closeCode = Some 4014\<rparr>;
        s = new_MusicSubscription \<lparr>state = newState, rejoinAttempts = 0\<rparr> ''voice'' ''text'';
        s' = emit (EntersState Connecting 5000) s
    in status newState = Disconnected \<and> reason newState = Some WebSocketClose \<and>
       closeCode newState = Some 4014 \<and>
       stateChange newState s = (s', Some AwaitConnecting) \<and>
       effects (stateChange_resume AwaitConnecting Resolved s') = [EntersState Connecting 5000] \<and>
       effects (stateChange_resume AwaitConnecting Rejected s') =
         [EntersState Connecting 5000, Destroy] \<and>
       status (state (voiceConnection (stateChange_resume AwaitConnecting Rejected s'))) =
         Destroyed)"
  using disconnected_4014_waits_for_connecting
    [of "\<lparr>status = Disconnected, reason = Some WebSocketClose, closeCode = Some 4014\<rparr>"
      "new_MusicSubscription
         \<lparr>state = \<lparr>status = Disconnected, reason = Some WebSocketClose, closeCode = Some 4014\<rparr>,
          rejoinAttempts = 0\<rparr> ''voice'' ''text''"
      "emit (EntersState Connecting 5000)
         (new_MusicSubscription
           \<lparr>state = \<lparr>status = Disconnected, reason = Some WebSocketClose, closeCode = Some 4014\<rparr>,
            rejoinAttempts = 0\<rparr> ''voice'' ''text'')"]
  by (simp add: Let_def emit_def new_MusicSubscription_def)

text \<open>
  Claim C8: on a \<open>Disconnected\<close> event that is not the 4014 case, with \<open>n\<close> rejoin
  attempts counted: when \<open>n < 5\<close> the handler waits \<open>(n + 1) * 5000\<close> milliseconds and
  then calls \<open>rejoin()\<close>, whatever has happened in between; when \<open>n \<ge> 5\<close> it destroys
  the voice connection at once. The witness runs the six events with the counters 0 to 5:
  five rejoins after 5, 10, 15, 20 and 25 seconds, then the destruction.
\<close>

theorem disconnected_rejoins_with_linear_backoff:
  assumes "status newState = Disconnected"
    and "\<not> (reason newState = Some WebSocketClose \<and> closeCode newState = Some 4014)"
  shows "(rejoinAttempts (voiceConnection s) < 5 \<longrightarrow>
            stateChange newState s =
              (emit (Wait ((rejoinAttempts (voiceConnection s) + 1) * 5000)) s,
               Some AwaitBackoff) \<and>
            effects (stateChange_run newState result s) =
              effects s @ [Wait ((rejoinAttempts (voiceConnection s) + 1) * 5000), Rejoin]) \<and>
         (5 \<le> rejoinAttempts (voiceConnection s) \<longrightarrow>
            stateChange newState s = (destroy s, None) \<and>
            effects (stateChange_run newState result s) = effects s @ [Destroy]) \<and>
         stateChange_resume AwaitBackoff result s' = rejoin s'"
  using assms
  by (auto simp: stateChange_def stateChange_run_def rejoin_def effects_emit effects_destroy)

theorem disconnected_rejoins_with_linear_backoff_witness:
  "(let newState = \<lparr>status = Disconnected, reason = Some WebSocketClose, closeCode = Some 4006\<rparr>;
        s = (\<lambda>n. new_MusicSubscription \<lparr>state = newState, rejoinAttempts = n\<rparr> ''voice'' ''text'')
    in status newState = Disconnected \<and>
       \<not> (reason newState = Some WebSocketClose \<and> closeCode newState = Some 4014) \<and>
       map (\<lambda>n. effects (stateChange_run newState Resolved (s n))) [0, 1, 2, 3, 4, 5] =
         [[Wait 5000, Rejoin], [Wait 10000, Rejoin], [Wait 15000, Rejoin],
          [Wait 20000, Rejoin], [Wait 25000, Rejoin], [Destroy]])"
proof -
  let ?st = "\<lparr>status = Disconnected, reason = Some WebSocketClose, closeCode = Some 4006\<rparr>"
  let ?s = "\<lambda>n. new_MusicSubscription \<lparr>state = ?st, rejoinAttempts = n\<rparr> ''voice'' ''text''"
  have hyps: "status ?st = Disconnected"
    "\<not> (reason ?st = Some WebSocketClose \<and> closeCode ?st = Some 4014)"
    by simp_all
  note run = disconnected_rejoins_with_linear_backoff [OF hyps, where result = Resolved]
  show ?thesis
    using run [of "?s 0"] run [of "?s 1"] run [of "?s 2"] run [of "?s 3"] run [of "?s 4"]
      run [of "?s 5"]
    by (simp add: Let_def new_MusicSubscription_def)
qed

text \<open>
  Claim C9: on an event into \<open>Signalling\<close> or \<open>Connecting\<close> with the ready lock
  clear, the handler sets the lock and waits up to 20 seconds for \<open>Ready\<close>. However
  the wait ends, the lock is clear when the handler ends; when the wait fails, the
  handler destroys the voice connection unless its status is \<open>Destroyed\<close> by then.
\<close>

theorem ready_wait_sets_and_clears_lock:
  assumes "status newState = Signalling \<or> status newState = Connecting"
    and "\<not> readyLock s"
  shows "stateChange newState s =
           (emit (EntersState Ready 20000) (s\<lparr>readyLock := True\<rparr>), Some AwaitReady) \<and>
         readyLock (fst (stateChange newState s)) \<and>
         \<not> readyLock (stateChange_resume AwaitReady result s') \<and>
         stateChange_resume AwaitReady Resolved s' = s'\<lparr>readyLock := False\<rparr> \<and>
         stateChange_resume AwaitReady Rejected s' =
           (if status (state (voiceConnection s')) \<noteq> Destroyed
            then (destroy s')\<lparr>readyLock := False\<rparr> else s'\<lparr>readyLock := False\<rparr>)"
proof -
  from assms have "stateChange newState s =
      (emit (EntersState Ready 20000) (s\<lparr>readyLock := True\<rparr>), Some AwaitReady)"
    by (auto simp: stateChange_def)
  moreover have "\<not> readyLock (stateChange_resume AwaitReady result s')"
    by (cases result) simp_all
  ultimately show ?thesis by (simp add: emit_def)
qed

theorem ready_wait_sets_and_clears_lock_witness:
  "(let newState = \<lparr>status = Connecting, reason = None, closeCode = None\<rparr>;
        s = new_MusicSubscription \<lparr>state = newState, rejoinAttempts = 0\<rparr> ''voice'' ''text'';
        waiting = s\<lparr>readyLock := True, effects := [EntersState Ready 20000]\<rparr>;
        gone = waiting\<lparr>voiceConnection :=
                 \<lparr>state = \<lparr>status = Destroyed, reason = None, closeCode = None\<rparr>,
                  rejoinAttempts = 0\<rparr>\<rparr>
    in (status newState = Signalling \<or> status newState = Connecting) \<and> \<not> readyLock s \<and>
       stateChange newState s = (waiting, Some AwaitReady) \<and>
       stateChange_resume AwaitReady Resolved waiting =
         s\<lparr>effects := [EntersState Ready 20000]\<rparr> \<and>
       stateChange_resume AwaitReady Rejected waiting =
         gone\<lparr>readyLock := False, effects := [EntersState Ready 20000, Destroy]\<rparr> \<and>
       stateChange_resume AwaitReady Rejected gone = gone\<lparr>readyLock := False\<rparr>)"
proof -
  let ?st = "\<lparr>status = Connecting, reason = None, closeCode = None\<rparr>"
  let ?s = "new_MusicSubscription \<lparr>state = ?st, rejoinAttempts = 0\<rparr> ''voice'' ''text''"
  let ?waiting = "?s\<lparr>readyLock := True, effects := [EntersState Ready 20000]\<rparr>"
  let ?gone = "?waiting\<lparr>voiceConnection :=
                 \<lparr>state = \<lparr>status = Destroyed, reason = None, closeCode = None\<rparr>,
                  rejoinAttempts = 0\<rparr>\<rparr>"
  have hyps: "status ?st = Signalling \<or> status ?st = Connecting" "\<not> readyLock ?s"
    by (simp_all add: new_MusicSubscription_def)
  show ?thesis
    using ready_wait_sets_and_clears_lock [OF hyps, of _ ?waiting]
      ready_wait_sets_and_clears_lock [OF hyps, of _ ?gone]
    by (simp add: Let_def new_MusicSubscription_def emit_def destroy_def)
qed

end
